theory Spec2Isabelle
  imports Complex_Main
begin

section \<open>Cells, periods and frames\<close>

text \<open>
  A numeric cell of a pandas column is a float. The model keeps the one special value the
  forecaster produces by itself, NaN (the mean of an empty selection, a rolling mean over
  an incomplete window, the standard deviation of fewer than two observations), and
  treats every other cell as an exact real: no rounding and no overflow to infinity.
  NaN propagates through arithmetic and every ordering comparison with NaN is false.
\<close>

datatype fval = NaN | Num real

fun fadd :: "fval \<Rightarrow> fval \<Rightarrow> fval" where
  "fadd (Num x) (Num y) = Num (x + y)"
| "fadd _ _ = NaN"

fun fsub :: "fval \<Rightarrow> fval \<Rightarrow> fval" where
  "fsub (Num x) (Num y) = Num (x - y)"
| "fsub _ _ = NaN"

fun fmul :: "fval \<Rightarrow> fval \<Rightarrow> fval" where
  "fmul (Num x) (Num y) = Num (x * y)"
| "fmul _ _ = NaN"

text \<open>
  Division by a non-zero float. The forecaster divides by the literal 3 and, inside
  pandas' \<open>mean\<close> and \<open>std\<close>, by positive counts only; a zero divisor (an infinity or NaN in
  numpy) is outside the model and mapped to NaN.
\<close>

fun fdiv :: "fval \<Rightarrow> fval \<Rightarrow> fval" where
  "fdiv (Num x) (Num y) = (if y = 0 then NaN else Num (x / y))"
| "fdiv _ _ = NaN"

fun fle :: "fval \<Rightarrow> fval \<Rightarrow> bool" where
  "fle (Num x) (Num y) = (x \<le> y)"
| "fle _ _ = False"

text \<open>The non-NaN cells of a column, in order (pandas' \<open>skipna\<close>).\<close>

fun nums :: "fval list \<Rightarrow> real list" where
  "nums [] = []"
| "nums (NaN # vs) = nums vs"
| "nums (Num x # vs) = x # nums vs"

text \<open>\<open>Series.mean()\<close>: the mean of the non-NaN cells, NaN when there is none.\<close>

definition pd_mean :: "fval list \<Rightarrow> fval" where
  "pd_mean vs =
     (let xs = nums vs in
      if xs = [] then NaN else Num (sum_list xs / real (length xs)))"

text \<open>
  \<open>Series.std()\<close>: the sample standard deviation (\<open>ddof = 1\<close>) of the non-NaN cells, NaN
  when there are fewer than two of them.
\<close>

definition pd_std :: "fval list \<Rightarrow> fval" where
  "pd_std vs =
     (let xs = nums vs; n = length xs in
      if n < 2 then NaN
      else let m = sum_list xs / real n in
           Num (sqrt (sum_list (map (\<lambda>x. (x - m)\<^sup>2) xs) / real (n - 1))))"

text \<open>
  \<open>Series.rolling(window).mean()\<close> with the default \<open>min_periods = window\<close>: entry \<open>i\<close> is
  the mean of the \<open>window\<close> cells ending at \<open>i\<close> when all of them exist and none is NaN, and
  NaN otherwise.
\<close>

definition window_mean :: "fval list \<Rightarrow> nat \<Rightarrow> nat \<Rightarrow> fval" where
  "window_mean vs window i =
     (if window = 0 \<or> i + 1 < window then NaN
      else let w = take window (drop (i + 1 - window) vs) in
           if length (nums w) < window then NaN
           else Num (sum_list (nums w) / real window))"

definition rolling_mean :: "fval list \<Rightarrow> nat \<Rightarrow> fval list" where
  "rolling_mean vs window = map (window_mean vs window) [0..<length vs]"

text \<open>
  A monthly period (\<open>Period[M]\<close>) is its ordinal, the number of months \<open>12 * year + (month - 1)\<close>.
  The entries of a month-end \<open>DatetimeIndex\<close> (\<open>freq = 'ME'\<close>) are the last days of
  consecutive months; each is represented by the period of its month.
\<close>

type_synonym period = int

definition month_of :: "period \<Rightarrow> int" where
  "month_of p = p mod 12 + 1"

definition year_of :: "period \<Rightarrow> int" where
  "year_of p = p div 12"

definition month_num :: "period \<Rightarrow> fval" where
  "month_num p = Num (real_of_int (month_of p))"

text \<open>
  \<open>pd.date_range(start = last_date + DateOffset(months = 1), periods = n, freq = 'ME')\<close>:
  the month ends of the \<open>n\<close> months after \<open>last_date\<close>'s month.
\<close>

definition date_range_after :: "period \<Rightarrow> nat \<Rightarrow> period list" where
  "date_range_after last_date n = map (\<lambda>i. last_date + 1 + int i) [0..<n]"

text \<open>
  The monthly frame \<open>self.data\<close>: the \<open>year_month\<close> column and the numeric columns by name
  (among them \<open>month\<close>, when the frame has one). The target column of an operation ranges
  over the numeric columns.
\<close>

record data_frame =
  year_month :: "period list"
  cols :: "string \<rightharpoonup> fval list"

datatype py_error = KeyError string | IndexError | NaTError | LibraryError string

text \<open>\<open>Series.iloc[-1]\<close> and \<open>Series.iloc[0]\<close> raise IndexError on an empty series.\<close>

definition iloc_last :: "'a list \<Rightarrow> py_error + 'a" where
  "iloc_last xs = (if xs = [] then Inl IndexError else Inr (last xs))"

definition iloc_first :: "'a list \<Rightarrow> py_error + 'a" where
  "iloc_first xs = (case xs of [] \<Rightarrow> Inl IndexError | x # _ \<Rightarrow> Inr x)"

text \<open>\<open>self.data[column]\<close> raises KeyError when the frame has no such column.\<close>

definition get_col :: "data_frame \<Rightarrow> string \<Rightarrow> py_error + fval list" where
  "get_col df column =
     (case cols df column of None \<Rightarrow> Inl (KeyError column) | Some vs \<Rightarrow> Inr vs)"

text \<open>
  A forecast frame: the columns \<open>date\<close>, \<open>forecast\<close> and \<open>method\<close> every forecasting call
  creates, and the further columns by name (the ensemble's components, the confidence
  bounds, the scenario columns).
\<close>

record forecast_df =
  date :: "period list"
  forecast :: "fval list"
  method_name :: string
  extra :: "string \<rightharpoonup> fval list"

text \<open>
  \<open>CashFlowForecaster\<close> and \<open>SeasonalAnalyzer\<close> both hold the frame they were built on as
  \<open>self.data\<close>. The forecaster is modelled with what its methods read and write:
  \<open>self.data\<close>, and the lines printed to standard output. The analyzer has its two result
  slots as well.
\<close>

record holder =
  data :: data_frame

record forecaster = holder +
  printed :: "string list"

record ('d, 's) analyzer = holder +
  decomposition :: "'d option"
  seasonal_stats :: "'s option"

section \<open>The forecasting operations\<close>

text \<open>
  Every method takes the forecaster and returns what the call returns or raises, with the
  forecaster as the call leaves it: a mutation of \<open>self.data\<close> and a printed line outlive
  an exception raised later in the same call.
  The horizon \<open>periods\<close> and the \<open>window\<close> are natural numbers; pandas rejects negative
  ones.
\<close>

text \<open>
  \<open>moving_average_forecast\<close>: the last entry of the rolling mean, repeated \<open>periods\<close> times,
  dated with the month ends after the last row's month.
\<close>

definition moving_average_forecast ::
  "forecaster \<Rightarrow> string \<Rightarrow> nat \<Rightarrow> nat \<Rightarrow> (py_error + forecast_df) \<times> forecaster" where
  "moving_average_forecast self column window periods =
     (case get_col (data self) column of
        Inl e \<Rightarrow> (Inl e, self)
      | Inr vs \<Rightarrow>
          (case iloc_last (rolling_mean vs window) of
             Inl e \<Rightarrow> (Inl e, self)
           | Inr last_ma \<Rightarrow>
               (case iloc_last (year_month (data self)) of
                  Inl e \<Rightarrow> (Inl e, self)
                | Inr last_date \<Rightarrow>
                    (Inr \<lparr>date = date_range_after last_date periods,
                          forecast = replicate periods last_ma,
                          method_name = ''Moving Average'',
                          extra = Map.empty\<rparr>, self))))"

text \<open>
  Lines 27-28 of \<open>seasonal_naive_forecast\<close>: a frame without a \<open>month\<close> column gets one,
  the month number of each row's \<open>year_month\<close>.
\<close>

definition ensure_month :: "data_frame \<Rightarrow> data_frame" where
  "ensure_month df =
     (if ''month'' \<in> dom (cols df) then df
      else df\<lparr>cols := (cols df)(''month'' \<mapsto> map month_num (year_month df))\<rparr>)"

text \<open>
  The rows of a column selected by a boolean mask over another column of the same frame.
\<close>

definition masked :: "('a \<Rightarrow> bool) \<Rightarrow> 'a list \<Rightarrow> fval list \<Rightarrow> fval list" where
  "masked keep ks vs = map snd (filter (\<lambda>(k, v). keep k) (zip ks vs))"

text \<open>
  One pass of the loop of \<open>seasonal_naive_forecast\<close>: the value of the row one year before
  the forecast month when the frame has one, and otherwise the mean of the rows whose
  \<open>month\<close> is the forecast month's.
\<close>

definition seasonal_value :: "data_frame \<Rightarrow> string \<Rightarrow> period \<Rightarrow> py_error + fval" where
  "seasonal_value df column d =
     (case get_col df column of
        Inl e \<Rightarrow> Inl e
      | Inr vs \<Rightarrow>
          (case masked (\<lambda>p. p = d - 12) (year_month df) vs of
             v # _ \<Rightarrow> Inr v
           | [] \<Rightarrow>
               (case get_col df ''month'' of
                  Inl e \<Rightarrow> Inl e
                | Inr ms \<Rightarrow> Inr (pd_mean (masked (\<lambda>m. m = month_num d) ms vs)))))"

fun seasonal_values :: "data_frame \<Rightarrow> string \<Rightarrow> period list \<Rightarrow> py_error + fval list" where
  "seasonal_values df column [] = Inr []"
| "seasonal_values df column (d # ds) =
     (case seasonal_value df column d of
        Inl e \<Rightarrow> Inl e
      | Inr v \<Rightarrow>
          (case seasonal_values df column ds of
             Inl e \<Rightarrow> Inl e
           | Inr forecast_vals \<Rightarrow> Inr (v # forecast_vals)))"

definition seasonal_naive_forecast ::
  "forecaster \<Rightarrow> string \<Rightarrow> nat \<Rightarrow> (py_error + forecast_df) \<times> forecaster" where
  "seasonal_naive_forecast self column periods =
     (let self1 = self\<lparr>data := ensure_month (data self)\<rparr> in
      case iloc_last (year_month (data self1)) of
        Inl e \<Rightarrow> (Inl e, self1)
      | Inr last_date \<Rightarrow>
          (let forecast_dates = date_range_after last_date periods in
           case seasonal_values (data self1) column forecast_dates of
             Inl e \<Rightarrow> (Inl e, self1)
           | Inr forecast_vals \<Rightarrow>
               (Inr \<lparr>date = forecast_dates,
                     forecast = forecast_vals,
                     method_name = ''Seasonal Naive'',
                     extra = Map.empty\<rparr>, self1)))"

text \<open>
  \<open>exponential_smoothing_forecast\<close>. The Holt-Winters fit is statsmodels', not this
  repository's, and is a parameter: \<open>hw vs periods\<close> stands for the whole \<open>try\<close> block on the
  values \<open>vs\<close>, \<open>Inl msg\<close> when the fit or the projection raises an exception whose text is
  \<open>msg\<close>, and \<open>Inr fit\<close> when it returns, \<open>projected fit i\<close> being the \<open>i\<close>-th of the \<open>periods\<close>
  projected values. An optimiser that does not converge raises nothing: statsmodels warns
  (\<open>ConvergenceWarning\<close>) and returns the results it has, which \<open>converged fit\<close> records;
  the code does not look at it. statsmodels indexes the projection by the month ends that
  follow the fitted index, which the code builds as \<open>len(self.data)\<close> consecutive months
  from the earliest \<open>year_month\<close>. The earliest period of an empty column is NaT, from which
  no index is built: the call raises before the \<open>try\<close> block.
\<close>

record hw_results =
  converged :: bool
  projected :: "nat \<Rightarrow> fval"

definition exponential_smoothing_forecast ::
  "(fval list \<Rightarrow> nat \<Rightarrow> string + hw_results) \<Rightarrow>
   forecaster \<Rightarrow> string \<Rightarrow> nat \<Rightarrow> (py_error + forecast_df) \<times> forecaster" where
  "exponential_smoothing_forecast hw self column periods =
     (case year_month (data self) of
        [] \<Rightarrow> (Inl NaTError, self)
      | y # ys \<Rightarrow>
          (let start_date = fold min ys y in
           case get_col (data self) column of
             Inl e \<Rightarrow> (Inl e, self)
           | Inr vs \<Rightarrow>
               (case hw vs periods of
                  Inr fit \<Rightarrow>
                    (Inr \<lparr>date = date_range_after
                                   (start_date + int (length (year_month (data self))) - 1) periods,
                          forecast = map (projected fit) [0..<periods],
                          method_name = ''Exponential Smoothing'',
                          extra = Map.empty\<rparr>, self)
                | Inl e \<Rightarrow>
                    seasonal_naive_forecast
                      (self\<lparr>printed := printed self @
                         [''Exponential smoothing failed: '' @ e @ ''. Falling back.'']\<rparr>)
                      column periods)))"

text \<open>
  \<open>ensemble_forecast\<close>. numpy adds the three value arrays element by element; all three
  have \<open>periods\<close> entries (the lemmas \<open>*_forecast_Inr\<close> below), so the zips drop nothing. The
  moving average is called with its default window, 3.
\<close>

definition ensemble_vals :: "fval list \<Rightarrow> fval list \<Rightarrow> fval list \<Rightarrow> fval list" where
  "ensemble_vals ma sn es =
     map (\<lambda>s. fdiv s (Num 3)) (map2 fadd (map2 fadd ma sn) es)"

definition ensemble_forecast ::
  "(fval list \<Rightarrow> nat \<Rightarrow> string + hw_results) \<Rightarrow>
   forecaster \<Rightarrow> string \<Rightarrow> nat \<Rightarrow> (py_error + forecast_df) \<times> forecaster" where
  "ensemble_forecast hw self column periods =
     (case moving_average_forecast self column 3 periods of
        (Inl e, self1) \<Rightarrow> (Inl e, self1)
      | (Inr ma_f, self1) \<Rightarrow>
          (case seasonal_naive_forecast self1 column periods of
             (Inl e, self2) \<Rightarrow> (Inl e, self2)
           | (Inr seasonal_f, self2) \<Rightarrow>
               (case exponential_smoothing_forecast hw self2 column periods of
                  (Inl e, self3) \<Rightarrow> (Inl e, self3)
                | (Inr es_f, self3) \<Rightarrow>
                    (Inr \<lparr>date = date ma_f,
                          forecast = ensemble_vals (forecast ma_f) (forecast seasonal_f)
                                       (forecast es_f),
                          method_name = ''Ensemble'',
                          extra = [''ma_forecast'' \<mapsto> forecast ma_f,
                                   ''seasonal_forecast'' \<mapsto> forecast seasonal_f,
                                   ''es_forecast'' \<mapsto> forecast es_f]\<rparr>, self3))))"

text \<open>
  \<open>calculate_confidence_intervals\<close> writes four columns into the forecast frame it is given
  and returns it; it reads \<open>self.data\<close> and the \<open>forecast\<close> column.
\<close>

definition calculate_confidence_intervals ::
  "forecaster \<Rightarrow> forecast_df \<Rightarrow> string \<Rightarrow> py_error + forecast_df" where
  "calculate_confidence_intervals self forecast_df column =
     (case get_col (data self) column of
        Inl e \<Rightarrow> Inl e
      | Inr vs \<Rightarrow>
          (let hist_std = pd_std vs;
               f1 = forecast_df\<lparr>extra := (extra forecast_df)(''lower_80'' \<mapsto>
                      map (\<lambda>f. fsub f (fmul (Num 1.28) hist_std)) (forecast forecast_df))\<rparr>;
               f2 = f1\<lparr>extra := (extra f1)(''upper_80'' \<mapsto>
                      map (\<lambda>f. fadd f (fmul (Num 1.28) hist_std)) (forecast f1))\<rparr>;
               f3 = f2\<lparr>extra := (extra f2)(''lower_95'' \<mapsto>
                      map (\<lambda>f. fsub f (fmul (Num 1.96) hist_std)) (forecast f2))\<rparr>;
               f4 = f3\<lparr>extra := (extra f3)(''upper_95'' \<mapsto>
                      map (\<lambda>f. fadd f (fmul (Num 1.96) hist_std)) (forecast f3))\<rparr>
           in Inr f4))"

text \<open>
  \<open>scenario_analysis\<close>: a dict is an association list with distinct keys, in insertion
  order; \<open>None\<close> stands for the default argument. The column written for a scenario is
  named \<open>name + '_forecast'\<close>, which is never \<open>forecast\<close> itself.
\<close>

definition default_scenarios :: "(string \<times> fval) list" where
  "default_scenarios =
     [(''pessimistic'', Num 0.8), (''optimistic'', Num 1.2), (''conservative'', Num 0.9)]"

fun apply_scenarios :: "forecast_df \<Rightarrow> (string \<times> fval) list \<Rightarrow> forecast_df" where
  "apply_scenarios forecast_df [] = forecast_df"
| "apply_scenarios forecast_df ((name, multiplier) # scenarios) =
     apply_scenarios
       (forecast_df\<lparr>extra := (extra forecast_df)(name @ ''_forecast'' \<mapsto>
          map (\<lambda>f. fmul f multiplier) (forecast forecast_df))\<rparr>)
       scenarios"

definition scenario_analysis ::
  "forecast_df \<Rightarrow> (string \<times> fval) list option \<Rightarrow> forecast_df" where
  "scenario_analysis forecast_df scenarios =
     (case scenarios of
        None \<Rightarrow> apply_scenarios forecast_df default_scenarios
      | Some sc \<Rightarrow> apply_scenarios forecast_df sc)"

section \<open>The analyzer's operations\<close>

text \<open>
  The statistics themselves come from pandas, scipy and statsmodels and are parameters of
  the model; what is modelled is the order of the reads of \<open>self.data\<close>, the exceptions they
  raise, and every assignment into \<open>self\<close>.
\<close>

text \<open>
  \<open>decompose_time_series\<close>: \<open>seasonal_decompose ts period\<close> is statsmodels' additive
  decomposition of the column's values. As in \<open>exponential_smoothing_forecast\<close>, the index
  starts at the earliest \<open>year_month\<close>, which an empty frame does not have.
\<close>

definition decompose_time_series ::
  "(fval list \<Rightarrow> nat \<Rightarrow> py_error + 'd) \<Rightarrow>
   ('d, 's) analyzer \<Rightarrow> string \<Rightarrow> nat \<Rightarrow> (py_error + 'd) \<times> ('d, 's) analyzer" where
  "decompose_time_series seasonal_decompose self column period0 =
     (let n = length (year_month (data self));
          period = (if n < 2 * period0 then max 1 (n div 2) else period0) in
      case year_month (data self) of
        [] \<Rightarrow> (Inl NaTError, self)
      | y # ys \<Rightarrow>
          (case get_col (data self) column of
             Inl e \<Rightarrow> (Inl e, self)
           | Inr vs \<Rightarrow>
               (case seasonal_decompose vs period of
                  Inl e \<Rightarrow> (Inl e, self)
                | Inr d \<Rightarrow> (Inr d, self\<lparr>decomposition := Some d\<rparr>))))"

text \<open>
  \<open>analyze_seasonality\<close>: lines 30-31 add the \<open>month\<close> column to a frame that has none (the
  same month numbers as \<open>ensure_month\<close>); \<open>summarise months values\<close> stands for lines 33-48,
  the per-month statistics and their summary, computed from the \<open>month\<close> column and the
  target column by \<open>groupby\<close>, \<open>agg\<close> and \<open>mean\<close>, which build new objects.
\<close>

definition analyze_seasonality ::
  "(fval list \<Rightarrow> fval list \<Rightarrow> py_error + 's) \<Rightarrow>
   ('d, 's) analyzer \<Rightarrow> string \<Rightarrow> (py_error + 's) \<times> ('d, 's) analyzer" where
  "analyze_seasonality summarise self column =
     (let self1 = self\<lparr>data := ensure_month (data self)\<rparr> in
      case get_col (data self1) ''month'' of
        Inl e \<Rightarrow> (Inl e, self1)
      | Inr ms \<Rightarrow>
          (case get_col (data self1) column of
             Inl e \<Rightarrow> (Inl e, self1)
           | Inr vs \<Rightarrow>
               (case summarise ms vs of
                  Inl e \<Rightarrow> (Inl e, self1)
                | Inr st \<Rightarrow> (Inr st, self1\<lparr>seasonal_stats := Some st\<rparr>))))"

text \<open>
  \<open>trend_analysis\<close>: \<open>linregress n y\<close> is scipy's regression of \<open>y\<close> on \<open>0, ..., n - 1\<close>,
  returning slope, r-value and p-value; \<open>adfuller xs\<close> is the p-value of statsmodels' unit
  root test on the non-NaN values. The two percentages are \<open>np.inf\<close> when the first value
  is zero.
\<close>

datatype percent = Percent fval | PosInf

record trend_stats =
  slope :: fval
  r_squared :: fval
  p_value :: fval
  total_change_percent :: percent
  is_stationary :: bool
  adf_p_value :: real
  monthly_growth_rate_percent :: percent

fun fabs :: "fval \<Rightarrow> fval" where
  "fabs (Num x) = Num \<bar>x\<bar>"
| "fabs NaN = NaN"

definition trend_analysis ::
  "(nat \<Rightarrow> fval list \<Rightarrow> py_error + fval \<times> fval \<times> fval) \<Rightarrow> (real list \<Rightarrow> py_error + real) \<Rightarrow>
   ('d, 's) analyzer \<Rightarrow> string \<Rightarrow> (py_error + trend_stats) \<times> ('d, 's) analyzer" where
  "trend_analysis linregress adfuller self column =
     (case get_col (data self) column of
        Inl e \<Rightarrow> (Inl e, self)
      | Inr y \<Rightarrow>
          (case linregress (length (year_month (data self))) y of
             Inl e \<Rightarrow> (Inl e, self)
           | Inr (slope_v, r_value, p_value_v) \<Rightarrow>
               (case iloc_first y of
                  Inl e \<Rightarrow> (Inl e, self)
                | Inr start_val \<Rightarrow>
                    (case iloc_last y of
                       Inl e \<Rightarrow> (Inl e, self)
                     | Inr end_val \<Rightarrow>
                         (let total_change =
                                (if start_val \<noteq> Num 0
                                 then Percent (fmul (fdiv (fsub end_val start_val) (fabs start_val))
                                                 (Num 100))
                                 else PosInf);
                              monthly_growth =
                                (if start_val \<noteq> Num 0
                                 then Percent (fmul (fdiv slope_v (fabs start_val)) (Num 100))
                                 else PosInf) in
                          case adfuller (nums y) of
                            Inl e \<Rightarrow> (Inl e, self)
                          | Inr adf_p \<Rightarrow>
                              (Inr \<lparr>slope = slope_v,
                                    r_squared = fmul r_value r_value,
                                    p_value = p_value_v,
                                    total_change_percent = total_change,
                                    is_stationary = (adf_p < 0.05),
                                    adf_p_value = adf_p,
                                    monthly_growth_rate_percent = monthly_growth\<rparr>, self))))))"

section \<open>Sample frames\<close>

text \<open>
  Concrete inputs on which the model is run below. Period 24288 is January 2024
  (\<open>12 * 2024 + 0\<close>). \<open>frame_q1\<close> has no \<open>month\<close> column; \<open>frame_q1_month\<close> is the same
  frame as \<open>aggregate_monthly\<close> hands it over, with one.
\<close>

definition frame_jan :: data_frame where
  "frame_jan = \<lparr>year_month = [24288], cols = [''net_cash_flow'' \<mapsto> [Num 5000]]\<rparr>"

definition frame_jan_feb :: data_frame where
  "frame_jan_feb =
     \<lparr>year_month = [24288, 24289], cols = [''net_cash_flow'' \<mapsto> [Num 100, Num 200]]\<rparr>"

definition frame_q1 :: data_frame where
  "frame_q1 =
     \<lparr>year_month = [24288, 24289, 24290],
      cols = [''net_cash_flow'' \<mapsto> [Num 1000, Num 1400, Num 1800]]\<rparr>"

definition frame_q1_month :: data_frame where
  "frame_q1_month =
     \<lparr>year_month = [24288, 24289, 24290],
      cols = [''net_cash_flow'' \<mapsto> [Num 1000, Num 1400, Num 1800],
              ''month'' \<mapsto> [Num 1, Num 2, Num 3]]\<rparr>"

text \<open>
  Twenty-four months from January 2024 to January 2026 with January 2025 (period 24300)
  missing.
\<close>

definition frame_gap :: data_frame where
  "frame_gap =
     \<lparr>year_month = [24288, 24289, 24290, 24291, 24292, 24293,
                     24294, 24295, 24296, 24297, 24298, 24299,
                     24301, 24302, 24303, 24304, 24305, 24306,
                     24307, 24308, 24309, 24310, 24311, 24312],
      cols = [''net_cash_flow'' \<mapsto>
                [Num 1000, Num 1000, Num 1000, Num 1000, Num 1000, Num 1000,
                 Num 1000, Num 1000, Num 1000, Num 1000, Num 1000, Num 1000,
                 Num 1300, Num 700, Num 1000, Num 1000, Num 1000, Num 1000,
                 Num 1000, Num 1000, Num 1000, Num 1100, Num 1000, Num 1200]]\<rparr>"

definition forecaster_of :: "data_frame \<Rightarrow> forecaster" where
  "forecaster_of df = \<lparr>data = df, printed = []\<rparr>"

definition analyzer_of :: "data_frame \<Rightarrow> ('d, 's) analyzer" where
  "analyzer_of df = \<lparr>data = df, decomposition = None, seasonal_stats = None\<rparr>"

text \<open>
  Three behaviours of the fit to run the model with: one that refuses fewer than two
  seasonal cycles (24 observations) and otherwise converges and projects the last value
  flat; one that always raises; and one that refuses an empty series and otherwise
  returns, without having converged, the same flat projection.
\<close>

definition hw_flat :: "fval list \<Rightarrow> nat \<Rightarrow> string + hw_results" where
  "hw_flat vs periods =
     (if length vs < 24 then Inl ''fewer than two full seasonal cycles''
      else Inr \<lparr>converged = True, projected = (\<lambda>i. last vs)\<rparr>)"

definition hw_failing :: "fval list \<Rightarrow> nat \<Rightarrow> string + hw_results" where
  "hw_failing vs periods = Inl ''fit raised''"

definition hw_unconverged :: "fval list \<Rightarrow> nat \<Rightarrow> string + hw_results" where
  "hw_unconverged vs periods =
     (if vs = [] then Inl ''no observations''
      else Inr \<lparr>converged = False, projected = (\<lambda>i. last vs)\<rparr>)"

text \<open>
  Two forecast frames of one entry: the moving average (window 1) of \<open>frame_jan\<close> and that
  (window 3) of \<open>frame_q1\<close>.
\<close>

definition forecast_feb :: forecast_df where
  "forecast_feb =
     \<lparr>date = [24289], forecast = [Num 5000], method_name = ''Moving Average'',
      extra = Map.empty\<rparr>"

definition forecast_apr :: forecast_df where
  "forecast_apr =
     \<lparr>date = [24291], forecast = [Num 1400], method_name = ''Moving Average'',
      extra = Map.empty\<rparr>"

section \<open>The interval ordering of the specification\<close>

text \<open>
  The ordering the specification states for entry \<open>i\<close> of a forecast frame with confidence
  bounds: \<open>lower_95 \<le> lower_80 \<le> forecast \<le> upper_80 \<le> upper_95\<close>, in float comparison.
\<close>

definition ci_ordered :: "forecast_df \<Rightarrow> nat \<Rightarrow> bool" where
  "ci_ordered r i =
     (case (extra r ''lower_95'', extra r ''lower_80'', extra r ''upper_80'', extra r ''upper_95'') of
        (Some l95, Some l80, Some u80, Some u95) \<Rightarrow>
          fle (l95 ! i) (l80 ! i) \<and> fle (l80 ! i) (forecast r ! i) \<and>
          fle (forecast r ! i) (u80 ! i) \<and> fle (u80 ! i) (u95 ! i)
      | _ \<Rightarrow> False)"

section \<open>Properties\<close>

subsection \<open>Periods and calendar months\<close>

lemma month_of_range: "1 \<le> month_of p \<and> month_of p \<le> 12"
  unfolding month_of_def by presburger

lemma period_of_year_month: "12 * year_of p + (month_of p - 1) = p"
  unfolding month_of_def year_of_def by simp

lemma year_of_succ:
  "year_of (p + 1) = (if month_of p = 12 then year_of p + 1 else year_of p)"
proof -
  define q r where "q = p div 12" and "r = p mod 12"
  have p: "p = 12 * q + r" and r: "0 \<le> r" "r < 12"
    by (simp_all add: q_def r_def)
  show ?thesis
  proof (cases "r = 11")
    case True
    then have "p + 1 = 12 * (q + 1) + 0" using p by simp
    then have "(p + 1) div 12 = q + 1" by (rule int_div_pos_eq) simp_all
    with True show ?thesis by (simp add: year_of_def month_of_def q_def r_def)
  next
    case False
    have "p + 1 = 12 * q + (r + 1)" using p by simp
    moreover have "0 \<le> r + 1" "r + 1 < 12" using r False by simp_all
    ultimately have "(p + 1) div 12 = q" by (rule int_div_pos_eq)
    with False show ?thesis by (simp add: year_of_def month_of_def q_def r_def)
  qed
qed

lemma month_of_succ:
  "month_of (p + 1) = (if month_of p = 12 then 1 else month_of p + 1)"
proof -
  define q r where "q = p div 12" and "r = p mod 12"
  have p: "p = 12 * q + r" and r: "0 \<le> r" "r < 12"
    by (simp_all add: q_def r_def)
  show ?thesis
  proof (cases "r = 11")
    case True
    then have "p + 1 = 12 * (q + 1) + 0" using p by simp
    then have "(p + 1) mod 12 = 0" by (rule int_mod_pos_eq) simp_all
    with True show ?thesis by (simp add: month_of_def r_def)
  next
    case False
    have "p + 1 = 12 * q + (r + 1)" using p by simp
    moreover have "0 \<le> r + 1" "r + 1 < 12" using r False by simp_all
    ultimately have "(p + 1) mod 12 = r + 1" by (rule int_mod_pos_eq)
    with False show ?thesis by (simp add: month_of_def r_def)
  qed
qed

lemma month_of_year_before: "month_of (p - 12) = month_of p"
proof -
  have "(p - 12) mod 12 = (p + (- 1) * 12) mod 12" by simp
  also have "\<dots> = p mod 12" by (rule mod_mult_self1)
  finally show ?thesis by (simp add: month_of_def)
qed

lemma year_of_year_before: "year_of (p - 12) = year_of p - 1"
proof -
  have "(p - 12) div 12 = (p + (- 1) * 12) div 12" by simp
  also have "\<dots> = - 1 + p div 12" by (rule div_mult_self1) simp
  finally show ?thesis by (simp add: year_of_def)
qed

lemma length_date_range_after: "length (date_range_after p n) = n"
  by (simp add: date_range_after_def)

lemma nth_date_range_after: "i < n \<Longrightarrow> date_range_after p n ! i = p + 1 + int i"
  by (simp add: date_range_after_def)

subsection \<open>The month column\<close>

lemma year_month_ensure_month: "year_month (ensure_month df) = year_month df"
  by (simp add: ensure_month_def)

lemma month_in_ensure_month: "''month'' \<in> dom (cols (ensure_month df))"
  by (auto simp add: ensure_month_def)

lemma cols_ensure_month:
  "c \<noteq> ''month'' \<or> ''month'' \<in> dom (cols df) \<Longrightarrow> cols (ensure_month df) c = cols df c"
  by (auto simp add: ensure_month_def)

lemma ensure_month_present: "''month'' \<in> dom (cols df) \<Longrightarrow> ensure_month df = df"
  by (simp add: ensure_month_def)

lemma ensure_month_idem: "ensure_month (ensure_month df) = ensure_month df"
  by (rule ensure_month_present) (rule month_in_ensure_month)

lemma dom_cols_ensure_month: "dom (cols (ensure_month df)) = insert ''month'' (dom (cols df))"
  by (auto simp add: ensure_month_def)

subsection \<open>The seasonal-naive forecast\<close>

lemma seasonal_value_defined:
  assumes "column \<in> dom (cols df)" and "''month'' \<in> dom (cols df)"
  shows "\<exists>v. seasonal_value df column d = Inr v"
  using assms by (auto simp add: seasonal_value_def get_col_def split: list.splits)

lemma seasonal_values_defined:
  assumes "column \<in> dom (cols df)" and "''month'' \<in> dom (cols df)"
  shows "\<exists>vs. seasonal_values df column ds = Inr vs \<and> length vs = length ds"
proof (induction ds)
  case Nil
  show ?case by simp
next
  case (Cons d ds)
  obtain v where "seasonal_value df column d = Inr v"
    using seasonal_value_defined [OF assms] by blast
  with Cons show ?case by auto
qed

lemma length_seasonal_values:
  "seasonal_values df column ds = Inr vs \<Longrightarrow> length vs = length ds"
  by (induction ds arbitrary: vs) (auto split: sum.splits)

lemma masked_none: "\<forall>k\<in>set ks. \<not> keep k \<Longrightarrow> masked keep ks vs = []"
  by (auto simp add: masked_def filter_empty_conv dest: set_zip_leftD)

lemma month_num_eq: "month_num p = month_num q \<longleftrightarrow> month_of p = month_of q"
  by (simp add: month_num_def)

lemma seasonal_value_no_history:
  assumes "get_col df column = Inr vs" and "get_col df ''month'' = Inr ms"
    and "d - 12 \<notin> set (year_month df)" and "month_num d \<notin> set ms"
  shows "seasonal_value df column d = Inr NaN"
proof -
  have "masked (\<lambda>p. p = d - 12) (year_month df) vs = []"
    using assms(3) by (intro masked_none) auto
  moreover have "masked (\<lambda>m. m = month_num d) ms vs = []"
    using assms(4) by (intro masked_none) auto
  ultimately show ?thesis
    using assms(1,2) by (simp add: seasonal_value_def pd_mean_def)
qed

lemma nth_seasonal_values:
  "seasonal_values df column ds = Inr vs \<Longrightarrow> i < length ds \<Longrightarrow>
   seasonal_value df column (ds ! i) = Inr (vs ! i)"
proof (induction ds arbitrary: vs i)
  case Nil
  then show ?case by simp
next
  case (Cons d ds)
  then show ?case
    by (cases i) (auto split: sum.splits)
qed

lemma seasonal_naive_forecast_defined:
  assumes "year_month (data self) \<noteq> []" and "column \<in> dom (cols (data self))"
  shows "\<exists>vs. seasonal_values (ensure_month (data self)) column
                (date_range_after (last (year_month (data self))) h) = Inr vs \<and>
              length vs = h \<and>
              seasonal_naive_forecast self column h =
                (Inr \<lparr>date = date_range_after (last (year_month (data self))) h,
                      forecast = vs, method_name = ''Seasonal Naive'', extra = Map.empty\<rparr>,
                 self\<lparr>data := ensure_month (data self)\<rparr>)"
proof -
  let ?df = "ensure_month (data self)"
  let ?ds = "date_range_after (last (year_month (data self))) h"
  have c: "column \<in> dom (cols ?df)"
    using assms(2) by (simp add: dom_cols_ensure_month)
  obtain vs where vs: "seasonal_values ?df column ?ds = Inr vs" and "length vs = length ?ds"
    using seasonal_values_defined [OF c month_in_ensure_month] by blast
  then have len: "length vs = h"
    by (simp add: length_date_range_after)
  have "seasonal_naive_forecast self column h =
          (Inr \<lparr>date = ?ds, forecast = vs, method_name = ''Seasonal Naive'', extra = Map.empty\<rparr>,
           self\<lparr>data := ?df\<rparr>)"
    using assms(1) vs
    by (simp add: seasonal_naive_forecast_def Let_def iloc_last_def year_month_ensure_month)
  with vs len show ?thesis by blast
qed

text \<open>
  C2. On a non-empty series with the target column, the seasonal-naive forecast returns a
  frame of exactly \<open>h\<close> entries, and its dates are the \<open>h\<close> consecutive months after the
  month of the last row: entry \<open>i\<close> is dated \<open>last + 1 + i\<close>.
\<close>

theorem seasonal_naive_horizon:
  assumes "year_month (data self) \<noteq> []" and "column \<in> dom (cols (data self))"
  shows "\<exists>r. fst (seasonal_naive_forecast self column h) = Inr r \<and>
             length (date r) = h \<and> length (forecast r) = h \<and>
             date r = map (\<lambda>i. last (year_month (data self)) + 1 + int i) [0..<h]"
  using seasonal_naive_forecast_defined [OF assms, of h]
  by (auto simp add: date_range_after_def)

theorem seasonal_naive_horizon_witness:
  "year_month (data (forecaster_of frame_q1)) \<noteq> [] \<and>
   ''net_cash_flow'' \<in> dom (cols (data (forecaster_of frame_q1))) \<and>
   (\<exists>r. fst (seasonal_naive_forecast (forecaster_of frame_q1) ''net_cash_flow'' 2) = Inr r \<and>
        length (date r) = 2 \<and> length (forecast r) = 2 \<and> date r = [24291, 24292])"
proof -
  have a: "year_month (data (forecaster_of frame_q1)) \<noteq> []"
    by (simp add: forecaster_of_def frame_q1_def)
  have b: "''net_cash_flow'' \<in> dom (cols (data (forecaster_of frame_q1)))"
    by (simp add: forecaster_of_def frame_q1_def)
  have "[0..<2] = [0, Suc 0]"
    by code_simp
  then show ?thesis
    using a b seasonal_naive_horizon [OF a b, of 2]
    by (simp add: forecaster_of_def frame_q1_def)
qed

text \<open>
  C6, as the code has it. On a non-empty series with the target column, whose \<open>month\<close>
  column is absent or holds the month numbers of \<open>year_month\<close>: when no row lies one year
  before forecast month \<open>i\<close> and no row shares its calendar month, the call does not fail;
  it returns, and its value for that month is NaN, the mean of an empty selection.
\<close>

theorem seasonal_naive_missing_month:
  assumes "year_month (data self) \<noteq> []"
    and "column \<in> dom (cols (data self))"
    and "cols (data self) ''month'' = None \<or>
         cols (data self) ''month'' = Some (map month_num (year_month (data self)))"
    and "i < h"
    and "\<forall>p\<in>set (year_month (data self)).
           p \<noteq> last (year_month (data self)) + 1 + int i - 12 \<and>
           month_of p \<noteq> month_of (last (year_month (data self)) + 1 + int i)"
  shows "\<exists>r. fst (seasonal_naive_forecast self column h) = Inr r \<and>
             date r ! i = last (year_month (data self)) + 1 + int i \<and>
             forecast r ! i = NaN"
proof -
  let ?df = "ensure_month (data self)"
  let ?t = "last (year_month (data self)) + 1 + int i"
  let ?ds = "date_range_after (last (year_month (data self))) h"
  obtain vs where vs: "seasonal_values ?df column ?ds = Inr vs"
    and r: "seasonal_naive_forecast self column h =
                (Inr \<lparr>date = ?ds, forecast = vs, method_name = ''Seasonal Naive'',
                      extra = Map.empty\<rparr>, self\<lparr>data := ?df\<rparr>)"
    using seasonal_naive_forecast_defined [OF assms(1,2)] by blast
  have d: "?ds ! i = ?t"
    using assms(4) by (rule nth_date_range_after)
  have ms: "cols ?df ''month'' = Some (map month_num (year_month (data self)))"
    using assms(3) by (auto simp add: ensure_month_def)
  have "column \<in> dom (cols ?df)"
    using assms(2) by (simp add: dom_cols_ensure_month)
  then obtain cv where cv: "get_col ?df column = Inr cv"
    by (auto simp add: get_col_def)
  have m: "get_col ?df ''month'' = Inr (map month_num (year_month (data self)))"
    using ms by (simp add: get_col_def)
  have n1: "?t - 12 \<notin> set (year_month ?df)"
    using assms(5) by (auto simp add: year_month_ensure_month)
  have n2: "month_num ?t \<notin> set (map month_num (year_month (data self)))"
    using assms(5) by (auto simp add: month_num_eq)
  have "seasonal_value ?df column ?t = Inr NaN"
    using cv m n1 n2 by (rule seasonal_value_no_history)
  moreover have "seasonal_value ?df column (?ds ! i) = Inr (vs ! i)"
    using vs assms(4) by (intro nth_seasonal_values) (simp_all add: length_date_range_after)
  ultimately have "vs ! i = NaN"
    using d by simp
  then show ?thesis
    using r d by simp
qed

theorem seasonal_naive_missing_month_witness:
  "year_month (data (forecaster_of frame_jan)) \<noteq> [] \<and>
   ''net_cash_flow'' \<in> dom (cols (data (forecaster_of frame_jan))) \<and>
   cols (data (forecaster_of frame_jan)) ''month'' = None \<and>
   (0::nat) < 1 \<and>
   list_all (\<lambda>p. p \<noteq> 24277 \<and> month_of p \<noteq> 2) (year_month (data (forecaster_of frame_jan))) \<and>
   (\<exists>r. fst (seasonal_naive_forecast (forecaster_of frame_jan) ''net_cash_flow'' 1) = Inr r \<and>
        date r ! 0 = 24289 \<and> forecast r ! 0 = NaN)"
proof -
  let ?s = "forecaster_of frame_jan"
  have a: "year_month (data ?s) \<noteq> []"
    by (simp add: forecaster_of_def frame_jan_def)
  have b: "''net_cash_flow'' \<in> dom (cols (data ?s))"
    by (simp add: forecaster_of_def frame_jan_def)
  have c: "cols (data ?s) ''month'' = None"
    by (simp add: forecaster_of_def frame_jan_def)
  then have c': "cols (data ?s) ''month'' = None \<or>
      cols (data ?s) ''month'' = Some (map month_num (year_month (data ?s)))"
    by simp
  have d: "(0::nat) < 1"
    by simp
  have e: "\<forall>p\<in>set (year_month (data ?s)).
           p \<noteq> last (year_month (data ?s)) + 1 + int 0 - 12 \<and>
           month_of p \<noteq> month_of (last (year_month (data ?s)) + 1 + int 0)"
    by (simp add: forecaster_of_def frame_jan_def month_of_def)
  have l: "last (year_month (data ?s)) = 24288"
    by (simp add: forecaster_of_def frame_jan_def)
  have f: "list_all (\<lambda>p. p \<noteq> 24277 \<and> month_of p \<noteq> 2) (year_month (data ?s))"
    by (simp add: forecaster_of_def frame_jan_def month_of_def)
  show ?thesis
    using a b c d f seasonal_naive_missing_month [OF a b c' d e] l
    by simp
qed

text \<open>
  C6 as stated fails: from a single January the forecast of the following February has
  neither a value one year before nor a February to average, and the call returns NaN for
  it instead of raising.
\<close>

theorem seasonal_naive_missing_month_counterexample:
  "seasonal_naive_forecast (forecaster_of frame_jan) ''net_cash_flow'' 1 =
     (Inr \<lparr>date = [24289], forecast = [NaN],
           method_name = ''Seasonal Naive'', extra = Map.empty\<rparr>,
      forecaster_of (ensure_month frame_jan))"
proof -
  have m: "month_num 24288 \<noteq> month_num 24289"
    by (simp add: month_num_def month_of_def)
  show ?thesis
    by (simp add: seasonal_naive_forecast_def forecaster_of_def frame_jan_def ensure_month_def
        iloc_last_def date_range_after_def seasonal_value_def get_col_def masked_def
        pd_mean_def m Let_def)
qed

subsection \<open>The moving-average forecast\<close>

lemma last_rolling_mean:
  "vs \<noteq> [] \<Longrightarrow> last (rolling_mean vs window) = window_mean vs window (length vs - 1)"
  by (simp add: rolling_mean_def last_map)

lemma rolling_mean_Nil: "rolling_mean vs window = [] \<longleftrightarrow> vs = []"
  by (simp add: rolling_mean_def)

lemma window_mean_short: "length vs < window \<Longrightarrow> i < length vs \<Longrightarrow> window_mean vs window i = NaN"
  by (simp add: window_mean_def)

lemma moving_average_defined:
  assumes "cols (data self) column = Some vs" and "vs \<noteq> []" and "year_month (data self) \<noteq> []"
  shows "moving_average_forecast self column window h =
           (Inr \<lparr>date = date_range_after (last (year_month (data self))) h,
                 forecast = replicate h (window_mean vs window (length vs - 1)),
                 method_name = ''Moving Average'', extra = Map.empty\<rparr>, self)"
  using assms
  by (simp add: moving_average_forecast_def get_col_def iloc_last_def last_rolling_mean
      rolling_mean_Nil)

text \<open>
  C8, as the code has it. On a series with fewer than \<open>window\<close> observations in the target
  column the moving-average forecast neither shrinks the window nor rejects the input: on
  an empty series \<open>iloc[-1]\<close> raises IndexError, and on any other it returns NaN, the
  undefined full-window average, for every forecast period.
\<close>

theorem moving_average_short_series:
  assumes "cols (data self) column = Some vs"
    and "length vs = length (year_month (data self))"
    and "length vs < window"
  shows "fst (moving_average_forecast self column window h) =
           (if vs = [] then Inl IndexError
            else Inr \<lparr>date = date_range_after (last (year_month (data self))) h,
                      forecast = replicate h NaN,
                      method_name = ''Moving Average'', extra = Map.empty\<rparr>)"
proof (cases "vs = []")
  case True
  then show ?thesis
    using assms(1)
    by (simp add: moving_average_forecast_def get_col_def iloc_last_def rolling_mean_Nil)
next
  case False
  then have ym: "year_month (data self) \<noteq> []"
    using assms(2) by auto
  have "window_mean vs window (length vs - 1) = NaN"
    using False assms(3) by (simp add: window_mean_short)
  then show ?thesis
    using False moving_average_defined [OF assms(1) False ym] by simp
qed

theorem moving_average_short_series_witness:
  "cols (data (forecaster_of frame_jan_feb)) ''net_cash_flow'' = Some [Num 100, Num 200] \<and>
   length [Num 100, Num 200] = length (year_month (data (forecaster_of frame_jan_feb))) \<and>
   length [Num 100, Num 200] < (3::nat) \<and>
   fst (moving_average_forecast (forecaster_of frame_jan_feb) ''net_cash_flow'' 3 1) =
     Inr \<lparr>date = [24290], forecast = [NaN],
          method_name = ''Moving Average'', extra = Map.empty\<rparr>"
proof -
  have a: "cols (data (forecaster_of frame_jan_feb)) ''net_cash_flow'' = Some [Num 100, Num 200]"
    by (simp add: forecaster_of_def frame_jan_feb_def)
  have b: "length [Num 100, Num 200] = length (year_month (data (forecaster_of frame_jan_feb)))"
    by (simp add: forecaster_of_def frame_jan_feb_def)
  have c: "length [Num 100, Num 200] < (3::nat)"
    by simp
  show ?thesis
    using a b c moving_average_short_series [OF a b c, of 1]
    by (simp add: forecaster_of_def frame_jan_feb_def date_range_after_def)
qed

text \<open>
  C8 as stated fails: with two observations and the default window of three the call
  returns, and both forecast values are NaN rather than the two-month average 150.
\<close>

theorem moving_average_short_series_counterexample:
  "moving_average_forecast (forecaster_of frame_jan_feb) ''net_cash_flow'' 3 2 =
     (Inr \<lparr>date = [24290, 24291], forecast = [NaN, NaN],
           method_name = ''Moving Average'', extra = Map.empty\<rparr>,
      forecaster_of frame_jan_feb)"
proof -
  have u: "[0..<2] = [0, Suc 0]"
    by code_simp
  have r: "replicate 2 NaN = [NaN, NaN]"
    by code_simp
  have w: "window_mean [Num 100, Num 200] 3 (Suc 0) = NaN"
    by (simp add: window_mean_def)
  show ?thesis
    by (simp add: moving_average_forecast_def forecaster_of_def frame_jan_feb_def get_col_def
        iloc_last_def rolling_mean_def date_range_after_def u r w)
qed

subsection \<open>Confidence intervals\<close>

lemma pd_std_defined:
  assumes "2 \<le> length (nums vs)"
  shows "\<exists>s. pd_std vs = Num s \<and> 0 \<le> s"
proof -
  let ?xs = "nums vs"
  let ?m = "sum_list ?xs / real (length ?xs)"
  have "0 \<le> sum_list (map (\<lambda>x. (x - ?m)\<^sup>2) ?xs)"
    by (rule sum_list_nonneg) auto
  then have "0 \<le> sqrt (sum_list (map (\<lambda>x. (x - ?m)\<^sup>2) ?xs) / real (length ?xs - 1))"
    by simp
  then show ?thesis
    using assms by (simp add: pd_std_def Let_def)
qed

lemma pd_std_undefined: "length (nums vs) < 2 \<Longrightarrow> pd_std vs = NaN"
  by (simp add: pd_std_def Let_def)

lemma calculate_confidence_intervals_eq:
  assumes "cols (data self) column = Some vs"
  shows "calculate_confidence_intervals self fdf column =
           Inr (fdf\<lparr>extra := (extra fdf)
                  (''lower_80'' \<mapsto> map (\<lambda>f. fsub f (fmul (Num 1.28) (pd_std vs))) (forecast fdf),
                   ''upper_80'' \<mapsto> map (\<lambda>f. fadd f (fmul (Num 1.28) (pd_std vs))) (forecast fdf),
                   ''lower_95'' \<mapsto> map (\<lambda>f. fsub f (fmul (Num 1.96) (pd_std vs))) (forecast fdf),
                   ''upper_95'' \<mapsto> map (\<lambda>f. fadd f (fmul (Num 1.96) (pd_std vs))) (forecast fdf))\<rparr>)"
  using assms by (simp add: calculate_confidence_intervals_def get_col_def Let_def)

lemma calculate_confidence_intervals_error:
  "cols (data self) column = None \<Longrightarrow>
   calculate_confidence_intervals self fdf column = Inl (KeyError column)"
  by (simp add: calculate_confidence_intervals_def get_col_def)

lemma fle_bands:
  "fle (fsub f (fmul (Num 1.96) sd)) (fsub f (fmul (Num 1.28) sd)) \<and>
   fle (fsub f (fmul (Num 1.28) sd)) f \<and>
   fle f (fadd f (fmul (Num 1.28) sd)) \<and>
   fle (fadd f (fmul (Num 1.28) sd)) (fadd f (fmul (Num 1.96) sd)) \<longleftrightarrow>
   f \<noteq> NaN \<and> (\<exists>s. sd = Num s \<and> 0 \<le> s)"
proof (cases f)
  case NaN
  then show ?thesis by simp
next
  case (Num x)
  show ?thesis
  proof (cases sd)
    case NaN
    with Num show ?thesis by simp
  next
    case (Num s)
    have "0 \<le> s \<Longrightarrow> 1.28 * s \<le> 1.96 * s"
      by (simp add: mult_right_mono)
    with Num \<open>f = Num x\<close> show ?thesis by auto
  qed
qed

text \<open>
  C3, as the code has it. On a series with the target column, every bound is the point
  forecast minus or plus 1.28 and 1.96 times the column's standard deviation, the same
  for every period; and entry \<open>i\<close> satisfies the ordering exactly when the column has at
  least two non-NaN observations (its standard deviation is defined) and the point
  forecast is not NaN. Otherwise the bounds of the entry are NaN.
\<close>

theorem confidence_interval_ordering:
  assumes "cols (data self) column = Some vs" and "i < length (forecast fdf)"
  shows "\<exists>r. calculate_confidence_intervals self fdf column = Inr r \<and>
           forecast r = forecast fdf \<and>
           extra r ''lower_80'' =
             Some (map (\<lambda>f. fsub f (fmul (Num 1.28) (pd_std vs))) (forecast fdf)) \<and>
           extra r ''upper_80'' =
             Some (map (\<lambda>f. fadd f (fmul (Num 1.28) (pd_std vs))) (forecast fdf)) \<and>
           extra r ''lower_95'' =
             Some (map (\<lambda>f. fsub f (fmul (Num 1.96) (pd_std vs))) (forecast fdf)) \<and>
           extra r ''upper_95'' =
             Some (map (\<lambda>f. fadd f (fmul (Num 1.96) (pd_std vs))) (forecast fdf)) \<and>
           (ci_ordered r i \<longleftrightarrow> 2 \<le> length (nums vs) \<and> forecast fdf ! i \<noteq> NaN)"
proof -
  let ?r = "fdf\<lparr>extra := (extra fdf)
             (''lower_80'' \<mapsto> map (\<lambda>f. fsub f (fmul (Num 1.28) (pd_std vs))) (forecast fdf),
              ''upper_80'' \<mapsto> map (\<lambda>f. fadd f (fmul (Num 1.28) (pd_std vs))) (forecast fdf),
              ''lower_95'' \<mapsto> map (\<lambda>f. fsub f (fmul (Num 1.96) (pd_std vs))) (forecast fdf),
              ''upper_95'' \<mapsto> map (\<lambda>f. fadd f (fmul (Num 1.96) (pd_std vs))) (forecast fdf))\<rparr>"
  have r: "calculate_confidence_intervals self fdf column = Inr ?r"
    using assms(1) by (rule calculate_confidence_intervals_eq)
  have sd: "(\<exists>s. pd_std vs = Num s \<and> 0 \<le> s) \<longleftrightarrow> 2 \<le> length (nums vs)"
  proof (cases "2 \<le> length (nums vs)")
    case True
    then show ?thesis using pd_std_defined by simp
  next
    case False
    then have "pd_std vs = NaN" by (simp add: pd_std_undefined)
    with False show ?thesis by simp
  qed
  have "ci_ordered ?r i \<longleftrightarrow> 2 \<le> length (nums vs) \<and> forecast fdf ! i \<noteq> NaN"
    using assms(2) fle_bands [of "forecast fdf ! i" "pd_std vs"] sd
    by (simp add: ci_ordered_def) blast
  with r show ?thesis
    by (intro exI [of _ ?r]) simp
qed

theorem confidence_interval_ordering_witness:
  "cols (data (forecaster_of frame_q1)) ''net_cash_flow'' = Some [Num 1000, Num 1400, Num 1800] \<and>
   (0::nat) < length (forecast forecast_apr) \<and>
   (\<exists>r. calculate_confidence_intervals (forecaster_of frame_q1) forecast_apr ''net_cash_flow''
           = Inr r \<and> ci_ordered r 0)"
proof -
  have a: "cols (data (forecaster_of frame_q1)) ''net_cash_flow'' =
             Some [Num 1000, Num 1400, Num 1800]"
    by (simp add: forecaster_of_def frame_q1_def)
  have b: "(0::nat) < length (forecast forecast_apr)"
    by (simp add: forecast_apr_def)
  have c: "2 \<le> length (nums [Num 1000, Num 1400, Num 1800]) \<and> forecast forecast_apr ! 0 \<noteq> NaN"
    by (simp add: forecast_apr_def)
  show ?thesis
    using a b c confidence_interval_ordering [OF a b] by auto
qed

text \<open>
  C3 as stated fails: the standard deviation of a single observation is NaN, so all four
  bounds are NaN and no comparison between them holds.
\<close>

theorem confidence_interval_ordering_counterexample:
  "calculate_confidence_intervals (forecaster_of frame_jan) forecast_feb ''net_cash_flow'' =
     Inr \<lparr>date = [24289], forecast = [Num 5000], method_name = ''Moving Average'',
          extra = [''lower_80'' \<mapsto> [NaN], ''upper_80'' \<mapsto> [NaN],
                   ''lower_95'' \<mapsto> [NaN], ''upper_95'' \<mapsto> [NaN]]\<rparr> \<and>
   \<not> ci_ordered \<lparr>date = [24289], forecast = [Num 5000], method_name = ''Moving Average'',
          extra = [''lower_80'' \<mapsto> [NaN], ''upper_80'' \<mapsto> [NaN],
                   ''lower_95'' \<mapsto> [NaN], ''upper_95'' \<mapsto> [NaN]]\<rparr> 0"
  by (simp add: calculate_confidence_intervals_def forecaster_of_def frame_jan_def
      forecast_feb_def get_col_def pd_std_def ci_ordered_def Let_def)

text \<open>
  C10. Applying \<open>calculate_confidence_intervals\<close> to its own result, with the same
  series and column, returns that result again: the four bounds are overwritten with the
  values they have, and nothing else changes.
\<close>

theorem confidence_intervals_idempotent:
  assumes "calculate_confidence_intervals self fdf column = Inr r"
  shows "calculate_confidence_intervals self r column = Inr r"
proof (cases "cols (data self) column")
  case None
  then show ?thesis
    using assms by (simp add: calculate_confidence_intervals_error)
next
  case (Some vs)
  have "r = fdf\<lparr>extra := (extra fdf)
             (''lower_80'' \<mapsto> map (\<lambda>f. fsub f (fmul (Num 1.28) (pd_std vs))) (forecast fdf),
              ''upper_80'' \<mapsto> map (\<lambda>f. fadd f (fmul (Num 1.28) (pd_std vs))) (forecast fdf),
              ''lower_95'' \<mapsto> map (\<lambda>f. fsub f (fmul (Num 1.96) (pd_std vs))) (forecast fdf),
              ''upper_95'' \<mapsto> map (\<lambda>f. fadd f (fmul (Num 1.96) (pd_std vs))) (forecast fdf))\<rparr>"
    using assms calculate_confidence_intervals_eq [OF Some, of fdf] by simp
  then show ?thesis
    using calculate_confidence_intervals_eq [OF Some, of r]
    by (simp add: fun_eq_iff)
qed

lemma pd_std_q1: "pd_std [Num 1000, Num 1400, Num 1800] = Num 400"
proof -
  have "sqrt 160000 = sqrt (400\<^sup>2)"
    by simp
  also have "\<dots> = 400"
    by simp
  finally show ?thesis
    by (simp add: pd_std_def Let_def)
qed

lemma confidence_intervals_q1:
  "calculate_confidence_intervals (forecaster_of frame_q1) forecast_apr ''net_cash_flow'' =
     Inr \<lparr>date = [24291], forecast = [Num 1400], method_name = ''Moving Average'',
          extra = [''lower_80'' \<mapsto> [Num 888], ''upper_80'' \<mapsto> [Num 1912],
                   ''lower_95'' \<mapsto> [Num 616], ''upper_95'' \<mapsto> [Num 2184]]\<rparr>"
  by (simp add: calculate_confidence_intervals_def forecaster_of_def frame_q1_def
      forecast_apr_def get_col_def pd_std_q1 Let_def)

theorem confidence_intervals_idempotent_witness:
  "calculate_confidence_intervals (forecaster_of frame_q1) forecast_apr ''net_cash_flow'' =
     Inr \<lparr>date = [24291], forecast = [Num 1400], method_name = ''Moving Average'',
          extra = [''lower_80'' \<mapsto> [Num 888], ''upper_80'' \<mapsto> [Num 1912],
                   ''lower_95'' \<mapsto> [Num 616], ''upper_95'' \<mapsto> [Num 2184]]\<rparr> \<and>
   calculate_confidence_intervals (forecaster_of frame_q1)
     \<lparr>date = [24291], forecast = [Num 1400], method_name = ''Moving Average'',
          extra = [''lower_80'' \<mapsto> [Num 888], ''upper_80'' \<mapsto> [Num 1912],
                   ''lower_95'' \<mapsto> [Num 616], ''upper_95'' \<mapsto> [Num 2184]]\<rparr> ''net_cash_flow'' =
     Inr \<lparr>date = [24291], forecast = [Num 1400], method_name = ''Moving Average'',
          extra = [''lower_80'' \<mapsto> [Num 888], ''upper_80'' \<mapsto> [Num 1912],
                   ''lower_95'' \<mapsto> [Num 616], ''upper_95'' \<mapsto> [Num 2184]]\<rparr>"
  using confidence_intervals_q1 confidence_intervals_idempotent [OF confidence_intervals_q1]
  by simp

subsection \<open>Scenarios\<close>

lemma forecast_apply_scenarios: "forecast (apply_scenarios fdf sc) = forecast fdf"
  by (induction fdf sc rule: apply_scenarios.induct) simp_all

lemma base_apply_scenarios:
  "date (apply_scenarios fdf sc) = date fdf \<and> method_name (apply_scenarios fdf sc) = method_name fdf"
  by (induction fdf sc rule: apply_scenarios.induct) simp_all

lemma extra_apply_scenarios_other:
  "k \<notin> (\<lambda>n. n @ ''_forecast'') ` fst ` set sc \<Longrightarrow>
   extra (apply_scenarios fdf sc) k = extra fdf k"
  by (induction fdf sc rule: apply_scenarios.induct) auto

lemma extra_apply_scenarios:
  "distinct (map fst sc) \<Longrightarrow> (name, m) \<in> set sc \<Longrightarrow>
   extra (apply_scenarios fdf sc) (name @ ''_forecast'') =
     Some (map (\<lambda>f. fmul f m) (forecast fdf))"
proof (induction fdf sc rule: apply_scenarios.induct)
  case (1 fdf)
  then show ?case by simp
next
  case (2 fdf n mu sc)
  show ?case
  proof (cases "(name, m) \<in> set sc")
    case True
    then show ?thesis
      using 2 by simp
  next
    case False
    then have eq: "n = name" "mu = m"
      using 2(3) by auto
    have "name \<notin> fst ` set sc"
      using 2(2) eq by simp
    then have "name @ ''_forecast'' \<notin> (\<lambda>n. n @ ''_forecast'') ` fst ` set sc"
      by auto
    then show ?thesis
      using eq by (simp add: extra_apply_scenarios_other)
  qed
qed

text \<open>
  C4. For every forecast frame and every scenario dict (distinct names): the column
  \<open>name_forecast\<close> written for a scenario \<open>name\<close> with multiplier \<open>m\<close> is the base point
  forecast times \<open>m\<close>, period by period, and the base forecast is unchanged. Without a
  dict the scenarios are pessimistic 0.8, optimistic 1.2 and conservative 0.9.
\<close>

theorem scenario_analysis_columns:
  "scenario_analysis fdf None =
     scenario_analysis fdf
       (Some [(''pessimistic'', Num 0.8), (''optimistic'', Num 1.2), (''conservative'', Num 0.9)]) \<and>
   forecast (scenario_analysis fdf (Some sc)) = forecast fdf \<and>
   (distinct (map fst sc) \<longrightarrow>
      (\<forall>(name, m)\<in>set sc.
         extra (scenario_analysis fdf (Some sc)) (name @ ''_forecast'') =
           Some (map (\<lambda>f. fmul f m) (forecast fdf))))"
  by (auto simp add: scenario_analysis_def default_scenarios_def forecast_apply_scenarios
      extra_apply_scenarios)

theorem scenario_analysis_columns_witness:
  "distinct (map fst [(''downside'', Num 0.5), (''upside'', Num 2)]) \<and>
   extra (scenario_analysis forecast_apr (Some [(''downside'', Num 0.5), (''upside'', Num 2)]))
     ''downside_forecast'' = Some [Num 700] \<and>
   extra (scenario_analysis forecast_apr (Some [(''downside'', Num 0.5), (''upside'', Num 2)]))
     ''upside_forecast'' = Some [Num 2800] \<and>
   extra (scenario_analysis forecast_apr None) ''pessimistic_forecast'' = Some [Num 1120]"
proof -
  let ?sc = "[(''downside'', Num 0.5), (''upside'', Num 2)]"
  have d: "distinct (map fst ?sc)"
    by simp
  have d': "distinct (map fst [(''pessimistic'', Num 0.8), (''optimistic'', Num 1.2),
                 (''conservative'', Num 0.9)])"
    by simp
  show ?thesis
    using d scenario_analysis_columns [of forecast_apr ?sc]
      d' scenario_analysis_columns [of forecast_apr "[(''pessimistic'', Num 0.8), (''optimistic'', Num 1.2),
                 (''conservative'', Num 0.9)]"]
    by (simp add: forecast_apr_def)
qed

subsection \<open>Exponential smoothing and the ensemble\<close>

lemma snd_moving_average_forecast: "snd (moving_average_forecast self column window h) = self"
  by (simp add: moving_average_forecast_def split: sum.splits)

lemma moving_average_forecast_Inr:
  assumes "fst (moving_average_forecast self column window h) = Inr r"
  shows "column \<in> dom (cols (data self)) \<and> year_month (data self) \<noteq> [] \<and>
         date r = date_range_after (last (year_month (data self))) h \<and>
         length (forecast r) = h"
  using assms
  by (auto simp add: moving_average_forecast_def get_col_def iloc_last_def
      split: sum.splits option.splits if_splits)

lemma snd_seasonal_naive_forecast:
  "snd (seasonal_naive_forecast self column h) = self\<lparr>data := ensure_month (data self)\<rparr>"
  by (simp add: seasonal_naive_forecast_def Let_def split: sum.splits)

lemma seasonal_naive_forecast_printed:
  "fst (seasonal_naive_forecast (self\<lparr>printed := out\<rparr>) column h) =
     fst (seasonal_naive_forecast self column h)"
  by (simp add: seasonal_naive_forecast_def Let_def split: sum.splits)

lemma seasonal_naive_forecast_ensured_only:
  "fst (seasonal_naive_forecast (self\<lparr>data := ensure_month (data self)\<rparr>) column h) =
     fst (seasonal_naive_forecast self column h)"
  by (simp add: seasonal_naive_forecast_def Let_def ensure_month_idem year_month_ensure_month
      split: sum.splits)

lemma seasonal_naive_forecast_Inr:
  assumes "fst (seasonal_naive_forecast self column h) = Inr r"
  shows "date r = date_range_after (last (year_month (data self))) h \<and> length (forecast r) = h"
  using assms
  by (auto simp add: seasonal_naive_forecast_def Let_def year_month_ensure_month
      length_date_range_after iloc_last_def dest: length_seasonal_values
      split: sum.splits if_splits)

lemma get_col_ensure_month:
  "column \<in> dom (cols df) \<Longrightarrow> get_col (ensure_month df) column = get_col df column"
  by (auto simp add: get_col_def ensure_month_def)

lemma exponential_smoothing_fitted:
  assumes "year_month (data self) = y # ys" and "cols (data self) column = Some vs"
    and "hw vs h = Inr fit"
  shows "exponential_smoothing_forecast hw self column h =
           (Inr \<lparr>date = date_range_after (fold min ys y + int (length (y # ys)) - 1) h,
                 forecast = map (projected fit) [0..<h],
                 method_name = ''Exponential Smoothing'', extra = Map.empty\<rparr>, self)"
  using assms by (simp add: exponential_smoothing_forecast_def get_col_def Let_def)

lemma exponential_smoothing_failed:
  assumes "year_month (data self) \<noteq> []" and "cols (data self) column = Some vs"
    and "hw vs h = Inl msg"
  shows "exponential_smoothing_forecast hw self column h =
           seasonal_naive_forecast
             (self\<lparr>printed := printed self @
                [''Exponential smoothing failed: '' @ msg @ ''. Falling back.'']\<rparr>) column h"
  using assms
  by (cases "year_month (data self)")
     (simp_all add: exponential_smoothing_forecast_def get_col_def Let_def)

lemma exponential_smoothing_forecast_Inr:
  assumes "fst (exponential_smoothing_forecast hw self column h) = Inr r"
  shows "length (forecast r) = h \<and> length (date r) = h"
proof (cases "year_month (data self)")
  case Nil
  then show ?thesis
    using assms by (simp add: exponential_smoothing_forecast_def)
next
  case (Cons y ys)
  show ?thesis
  proof (cases "cols (data self) column")
    case None
    then show ?thesis
      using assms Cons by (simp add: exponential_smoothing_forecast_def get_col_def)
  next
    case (Some vs)
    show ?thesis
    proof (cases "hw vs h")
      case (Inr fit)
      then show ?thesis
        using assms exponential_smoothing_fitted [where hw = hw, OF Cons Some Inr]
        by (auto simp add: length_date_range_after)
    next
      case (Inl msg)
      have "year_month (data self) \<noteq> []"
        using Cons by simp
      then show ?thesis
        using assms exponential_smoothing_failed [where hw = hw, OF _ Some Inl]
          seasonal_naive_forecast_Inr [of _ column h r]
        by (simp add: length_date_range_after)
    qed
  qed
qed

lemma data_exponential_smoothing_forecast:
  "data (snd (exponential_smoothing_forecast hw self column h)) = data self \<or>
   data (snd (exponential_smoothing_forecast hw self column h)) = ensure_month (data self)"
  by (simp add: exponential_smoothing_forecast_def get_col_def Let_def
      snd_seasonal_naive_forecast split: list.splits option.splits sum.splits)

lemma exponential_smoothing_forecast_ensured:
  assumes "column \<in> dom (cols (data self))"
  shows "fst (exponential_smoothing_forecast hw (self\<lparr>data := ensure_month (data self)\<rparr>) column h) =
         fst (exponential_smoothing_forecast hw self column h)"
  using assms
  by (simp add: exponential_smoothing_forecast_def Let_def year_month_ensure_month
      get_col_ensure_month seasonal_naive_forecast_ensured_only seasonal_naive_forecast_printed
      split: list.splits sum.splits)

lemma nth_ensemble_vals:
  assumes "i < length ma" and "i < length sn" and "i < length es"
  shows "ensemble_vals ma sn es ! i = fdiv (fadd (fadd (ma ! i) (sn ! i)) (es ! i)) (Num 3)"
  using assms by (simp add: ensemble_vals_def)

lemma length_ensemble_vals:
  "length (ensemble_vals ma sn es) = min (min (length ma) (length sn)) (length es)"
  by (simp add: ensemble_vals_def)

lemma ensemble_forecast_defined:
  assumes "fst (moving_average_forecast self column 3 h) = Inr ma_f"
    and "fst (seasonal_naive_forecast self column h) = Inr seasonal_f"
    and "fst (exponential_smoothing_forecast hw self column h) = Inr es_f"
  shows "fst (ensemble_forecast hw self column h) =
           Inr \<lparr>date = date ma_f,
                forecast = ensemble_vals (forecast ma_f) (forecast seasonal_f) (forecast es_f),
                method_name = ''Ensemble'',
                extra = [''ma_forecast'' \<mapsto> forecast ma_f,
                         ''seasonal_forecast'' \<mapsto> forecast seasonal_f,
                         ''es_forecast'' \<mapsto> forecast es_f]\<rparr>"
proof -
  let ?self2 = "self\<lparr>data := ensure_month (data self)\<rparr>"
  have ma: "moving_average_forecast self column 3 h = (Inr ma_f, self)"
    using assms(1) snd_moving_average_forecast [of self column 3 h]
    by (simp add: prod_eq_iff)
  have sn: "seasonal_naive_forecast self column h = (Inr seasonal_f, ?self2)"
    using assms(2) snd_seasonal_naive_forecast [of self column h]
    by (simp add: prod_eq_iff)
  have "column \<in> dom (cols (data self))"
    using moving_average_forecast_Inr [OF assms(1)] by simp
  then have "fst (exponential_smoothing_forecast hw ?self2 column h) = Inr es_f"
    using assms(3) by (simp add: exponential_smoothing_forecast_ensured)
  then obtain self3 where es: "exponential_smoothing_forecast hw ?self2 column h = (Inr es_f, self3)"
    by (cases "exponential_smoothing_forecast hw ?self2 column h") simp
  show ?thesis
    by (simp add: ensemble_forecast_def ma sn es)
qed

text \<open>
  C1. When the three variants return on a series, column and horizon \<open>h\<close>, the ensemble
  returns \<open>h\<close> entries and its point forecast at every position \<open>i < h\<close> is the sum of the
  three forecasts at \<open>i\<close> divided by 3: for numbers \<open>a\<close>, \<open>b\<close>, \<open>c\<close> it is \<open>(a + b + c) / 3\<close>,
  and NaN as soon as one of them is NaN.
\<close>

theorem ensemble_forecast_mean:
  assumes "fst (moving_average_forecast self column 3 h) = Inr ma_f"
    and "fst (seasonal_naive_forecast self column h) = Inr seasonal_f"
    and "fst (exponential_smoothing_forecast hw self column h) = Inr es_f"
    and "i < h"
  shows "\<exists>e. fst (ensemble_forecast hw self column h) = Inr e \<and>
             length (forecast e) = h \<and>
             forecast e ! i =
               fdiv (fadd (fadd (forecast ma_f ! i) (forecast seasonal_f ! i)) (forecast es_f ! i))
                 (Num 3) \<and>
             (\<forall>a b c. forecast ma_f ! i = Num a \<and> forecast seasonal_f ! i = Num b \<and>
                      forecast es_f ! i = Num c \<longrightarrow>
                forecast e ! i = Num ((a + b + c) / 3))"
proof -
  have l1: "length (forecast ma_f) = h"
    using moving_average_forecast_Inr [OF assms(1)] by simp
  have l2: "length (forecast seasonal_f) = h"
    using seasonal_naive_forecast_Inr [OF assms(2)] by simp
  have l3: "length (forecast es_f) = h"
    using exponential_smoothing_forecast_Inr [OF assms(3)] by simp
  have "ensemble_vals (forecast ma_f) (forecast seasonal_f) (forecast es_f) ! i =
          fdiv (fadd (fadd (forecast ma_f ! i) (forecast seasonal_f ! i)) (forecast es_f ! i))
            (Num 3)"
    using assms(4) l1 l2 l3 by (simp add: nth_ensemble_vals)
  then show ?thesis
    using ensemble_forecast_defined [OF assms(1,2,3)] l1 l2 l3
    by (auto simp add: length_ensemble_vals)
qed

lemma year_month_frame_gap:
  "year_month (data (forecaster_of frame_gap)) \<noteq> [] \<and>
   last (year_month (data (forecaster_of frame_gap))) = 24312"
  by (simp add: forecaster_of_def frame_gap_def)

lemma upt_two: "[0..<2] = [0, Suc 0]"
  by code_simp

lemma moving_average_frame_gap:
  "fst (moving_average_forecast (forecaster_of frame_gap) ''net_cash_flow'' 3 2) =
     Inr \<lparr>date = [24313, 24314], forecast = [Num 1100, Num 1100],
          method_name = ''Moving Average'', extra = Map.empty\<rparr>"
proof -
  have c: "cols (data (forecaster_of frame_gap)) ''net_cash_flow'' = Some
                [Num 1000, Num 1000, Num 1000, Num 1000, Num 1000, Num 1000,
                 Num 1000, Num 1000, Num 1000, Num 1000, Num 1000, Num 1000,
                 Num 1300, Num 700, Num 1000, Num 1000, Num 1000, Num 1000,
                 Num 1000, Num 1000, Num 1000, Num 1100, Num 1000, Num 1200]"
    by (simp add: forecaster_of_def frame_gap_def)
  have r: "replicate 2 (Num 1100) = [Num 1100, Num 1100]"
    by code_simp
  show ?thesis
    using year_month_frame_gap
    by (simp add: moving_average_defined [OF c] window_mean_def date_range_after_def upt_two r)
qed

lemma seasonal_naive_frame_gap:
  "fst (seasonal_naive_forecast (forecaster_of frame_gap) ''net_cash_flow'' 2) =
     Inr \<lparr>date = [24313, 24314], forecast = [Num 1300, Num 700],
          method_name = ''Seasonal Naive'', extra = Map.empty\<rparr>"
  by (simp add: seasonal_naive_forecast_def forecaster_of_def frame_gap_def ensure_month_def
      iloc_last_def date_range_after_def upt_two seasonal_value_def get_col_def masked_def
      Let_def)

lemma exponential_smoothing_frame_gap:
  "fst (exponential_smoothing_forecast hw_flat (forecaster_of frame_gap) ''net_cash_flow'' 2) =
     Inr \<lparr>date = [24312, 24313], forecast = [Num 1200, Num 1200],
          method_name = ''Exponential Smoothing'', extra = Map.empty\<rparr>"
  by (simp add: exponential_smoothing_forecast_def forecaster_of_def frame_gap_def
      get_col_def hw_flat_def date_range_after_def upt_two Let_def)

theorem ensemble_forecast_mean_witness:
  "fst (moving_average_forecast (forecaster_of frame_gap) ''net_cash_flow'' 3 2) =
     Inr \<lparr>date = [24313, 24314], forecast = [Num 1100, Num 1100],
          method_name = ''Moving Average'', extra = Map.empty\<rparr> \<and>
   fst (seasonal_naive_forecast (forecaster_of frame_gap) ''net_cash_flow'' 2) =
     Inr \<lparr>date = [24313, 24314], forecast = [Num 1300, Num 700],
          method_name = ''Seasonal Naive'', extra = Map.empty\<rparr> \<and>
   fst (exponential_smoothing_forecast hw_flat (forecaster_of frame_gap) ''net_cash_flow'' 2) =
     Inr \<lparr>date = [24312, 24313], forecast = [Num 1200, Num 1200],
          method_name = ''Exponential Smoothing'', extra = Map.empty\<rparr> \<and>
   (0::nat) < 2 \<and>
   (\<exists>e. fst (ensemble_forecast hw_flat (forecaster_of frame_gap) ''net_cash_flow'' 2) = Inr e \<and>
        length (forecast e) = 2 \<and> forecast e ! 0 = Num 1200)"
proof -
  have i: "(0::nat) < 2"
    by simp
  show ?thesis
    using moving_average_frame_gap seasonal_naive_frame_gap exponential_smoothing_frame_gap i
      ensemble_forecast_mean [OF moving_average_frame_gap seasonal_naive_frame_gap
        exponential_smoothing_frame_gap i]
    by auto
qed

text \<open>
  C7, as the code has it. \<open>ensemble_forecast\<close> compares neither lengths nor dates and has
  no error of its own. Whenever the three variants return, each has exactly \<open>h\<close> entries,
  the ensemble returns \<open>h\<close> entries combined position by position, and entry \<open>i\<close> carries
  the moving-average forecast's date, the \<open>i\<close>-th month after the last row's (the
  seasonal-naive forecast's date as well); the dates of the exponential-smoothing frame
  are not read.
\<close>

theorem ensemble_forecast_alignment:
  assumes "fst (moving_average_forecast self column 3 h) = Inr ma_f"
    and "fst (seasonal_naive_forecast self column h) = Inr seasonal_f"
    and "fst (exponential_smoothing_forecast hw self column h) = Inr es_f"
  shows "\<exists>e. fst (ensemble_forecast hw self column h) = Inr e \<and>
             length (forecast ma_f) = h \<and> length (forecast seasonal_f) = h \<and>
             length (forecast es_f) = h \<and> length (date es_f) = h \<and>
             length (forecast e) = h \<and>
             date e = date ma_f \<and> date e = date seasonal_f \<and>
             date e = map (\<lambda>i. last (year_month (data self)) + 1 + int i) [0..<h]"
proof -
  have l1: "length (forecast ma_f) = h"
    and d1: "date ma_f = date_range_after (last (year_month (data self))) h"
    using moving_average_forecast_Inr [OF assms(1)] by simp_all
  have l2: "length (forecast seasonal_f) = h"
    and d2: "date seasonal_f = date_range_after (last (year_month (data self))) h"
    using seasonal_naive_forecast_Inr [OF assms(2)] by simp_all
  have l3: "length (forecast es_f) = h" "length (date es_f) = h"
    using exponential_smoothing_forecast_Inr [OF assms(3)] by simp_all
  show ?thesis
    using ensemble_forecast_defined [OF assms] l1 l2 l3 d1 d2
    by (simp add: length_ensemble_vals date_range_after_def)
qed

theorem ensemble_forecast_alignment_witness:
  "fst (moving_average_forecast (forecaster_of frame_gap) ''net_cash_flow'' 3 2) =
     Inr \<lparr>date = [24313, 24314], forecast = [Num 1100, Num 1100],
          method_name = ''Moving Average'', extra = Map.empty\<rparr> \<and>
   fst (seasonal_naive_forecast (forecaster_of frame_gap) ''net_cash_flow'' 2) =
     Inr \<lparr>date = [24313, 24314], forecast = [Num 1300, Num 700],
          method_name = ''Seasonal Naive'', extra = Map.empty\<rparr> \<and>
   fst (exponential_smoothing_forecast hw_flat (forecaster_of frame_gap) ''net_cash_flow'' 2) =
     Inr \<lparr>date = [24312, 24313], forecast = [Num 1200, Num 1200],
          method_name = ''Exponential Smoothing'', extra = Map.empty\<rparr> \<and>
   (\<exists>e. fst (ensemble_forecast hw_flat (forecaster_of frame_gap) ''net_cash_flow'' 2) = Inr e \<and>
        length (forecast e) = 2 \<and> date e = [24313, 24314])"
  using moving_average_frame_gap seasonal_naive_frame_gap exponential_smoothing_frame_gap
    ensemble_forecast_alignment [OF moving_average_frame_gap seasonal_naive_frame_gap
      exponential_smoothing_frame_gap]
  by auto

text \<open>
  C7 as stated fails: on the series with a missing month the exponential-smoothing frame is
  dated January and February 2026 (24 months counted from the first), the other two
  February and March 2026, and the ensemble returns a frame dated February and March.
\<close>

theorem ensemble_forecast_alignment_counterexample:
  "fst (exponential_smoothing_forecast hw_flat (forecaster_of frame_gap) ''net_cash_flow'' 2) =
     Inr \<lparr>date = [24312, 24313], forecast = [Num 1200, Num 1200],
          method_name = ''Exponential Smoothing'', extra = Map.empty\<rparr> \<and>
   fst (ensemble_forecast hw_flat (forecaster_of frame_gap) ''net_cash_flow'' 2) =
     Inr \<lparr>date = [24313, 24314], forecast = [Num 1200, Num 1000],
          method_name = ''Ensemble'',
          extra = [''ma_forecast'' \<mapsto> [Num 1100, Num 1100],
                   ''seasonal_forecast'' \<mapsto> [Num 1300, Num 700],
                   ''es_forecast'' \<mapsto> [Num 1200, Num 1200]]\<rparr>"
  using exponential_smoothing_frame_gap
    ensemble_forecast_defined [OF moving_average_frame_gap seasonal_naive_frame_gap
      exponential_smoothing_frame_gap]
  by (simp add: ensemble_vals_def)

subsection \<open>The fallback of exponential smoothing\<close>





subsection \<open>What the operations do to the frame\<close>

lemma data_trend_analysis: "data (snd (trend_analysis linregress adfuller self column)) = data self"
  by (simp add: trend_analysis_def Let_def split: sum.splits prod.splits)

lemma data_decompose_time_series:
  "data (snd (decompose_time_series seasonal_decompose self column period0)) = data self"
  by (simp add: decompose_time_series_def Let_def split: list.splits sum.splits)

lemma data_analyze_seasonality:
  "data (snd (analyze_seasonality summarise self column)) = ensure_month (data self)"
  by (simp add: analyze_seasonality_def Let_def split: sum.splits)

lemma data_exponential_smoothing_exact:
  "data (snd (exponential_smoothing_forecast hw self column h)) =
     (if year_month (data self) \<noteq> [] \<and>
         (case cols (data self) column of None \<Rightarrow> False | Some vs \<Rightarrow> isl (hw vs h))
      then ensure_month (data self) else data self)"
  by (simp add: exponential_smoothing_forecast_def get_col_def Let_def
      snd_seasonal_naive_forecast split: list.splits option.splits sum.splits)

lemma data_ensemble_exact:
  "data (snd (ensemble_forecast hw self column h)) =
     (if isl (fst (moving_average_forecast self column 3 h)) then data self
      else ensure_month (data self))"
proof -
  let ?self2 = "self\<lparr>data := ensure_month (data self)\<rparr>"
  have ma: "snd (moving_average_forecast self column 3 h) = self"
    by (rule snd_moving_average_forecast)
  have sn: "snd (seasonal_naive_forecast self column h) = ?self2"
    by (rule snd_seasonal_naive_forecast)
  have es: "data (snd (exponential_smoothing_forecast hw ?self2 column h)) =
              ensure_month (data self)"
    using data_exponential_smoothing_forecast [of hw ?self2 column h]
    by (simp add: ensure_month_idem)
  show ?thesis
  proof (cases "moving_average_forecast self column 3 h")
    case (Pair r1 s1)
    with ma have s1: "s1 = self" by simp
    show ?thesis
    proof (cases r1)
      case (Inl e)
      with Pair s1 show ?thesis by (simp add: ensemble_forecast_def)
    next
      case (Inr ma_f)
      show ?thesis
      proof (cases "seasonal_naive_forecast self column h")
        case sp: (Pair r2 s2)
        with sn have s2: "s2 = ?self2" by simp
        show ?thesis
        proof (cases r2)
          case (Inl e)
          with Pair s1 Inr sp s2 show ?thesis by (simp add: ensemble_forecast_def)
        next
          case sr: (Inr seasonal_f)
          show ?thesis
          proof (cases "exponential_smoothing_forecast hw ?self2 column h")
            case ep: (Pair r3 s3)
            with es have "data s3 = ensure_month (data self)" by simp
            with Pair s1 Inr sp s2 sr ep show ?thesis
              by (simp add: ensemble_forecast_def split: sum.splits)
          qed
        qed
      qed
    qed
  qed
qed

text \<open>
  C9, as the code has it. \<open>trend_analysis\<close>, \<open>decompose_time_series\<close> and
  \<open>moving_average_forecast\<close> leave \<open>self.data\<close> as it is. \<open>analyze_seasonality\<close> and
  \<open>seasonal_naive_forecast\<close> leave it as \<open>ensure_month\<close> makes it.
  \<open>exponential_smoothing_forecast\<close> leaves it so exactly when the fit is reached and
  raises (the fallback), and as it is otherwise. \<open>ensemble_forecast\<close> leaves it as it is
  when its moving-average call raises, and as \<open>ensure_month\<close> makes it otherwise.
  \<open>ensure_month\<close> keeps \<open>year_month\<close> and every column the frame has, removes none, and
  adds nothing to a frame that has a \<open>month\<close> column; to a frame without one it adds the
  column \<open>month\<close>, the month numbers of \<open>year_month\<close>.
\<close>

theorem engine_frame_effect:
  "data (snd (trend_analysis linregress adfuller an column)) = data an \<and>
   data (snd (decompose_time_series seasonal_decompose an column p)) = data an \<and>
   data (snd (moving_average_forecast self column window h)) = data self \<and>
   data (snd (analyze_seasonality summarise an column)) = ensure_month (data an) \<and>
   data (snd (seasonal_naive_forecast self column h)) = ensure_month (data self) \<and>
   data (snd (exponential_smoothing_forecast hw self column h)) =
     (if year_month (data self) \<noteq> [] \<and>
         (case cols (data self) column of None \<Rightarrow> False | Some vs \<Rightarrow> isl (hw vs h))
      then ensure_month (data self) else data self) \<and>
   data (snd (ensemble_forecast hw self column h)) =
     (if isl (fst (moving_average_forecast self column 3 h)) then data self
      else ensure_month (data self)) \<and>
   year_month (ensure_month df) = year_month df \<and>
   dom (cols (ensure_month df)) = insert ''month'' (dom (cols df)) \<and>
   (\<forall>c\<in>dom (cols df). cols (ensure_month df) c = cols df c) \<and>
   (''month'' \<in> dom (cols df) \<longrightarrow> ensure_month df = df) \<and>
   (''month'' \<notin> dom (cols df) \<longrightarrow>
      cols (ensure_month df) ''month'' = Some (map month_num (year_month df)))"
proof -
  have "\<forall>c\<in>dom (cols df). cols (ensure_month df) c = cols df c"
    by (auto simp add: ensure_month_def)
  moreover have "''month'' \<notin> dom (cols df) \<longrightarrow>
      cols (ensure_month df) ''month'' = Some (map month_num (year_month df))"
    by (simp add: ensure_month_def)
  ultimately show ?thesis
    using data_ensemble_exact [of hw self column h]
      data_exponential_smoothing_exact [of hw self column h]
    by (simp add: data_trend_analysis data_decompose_time_series snd_moving_average_forecast
        data_analyze_seasonality snd_seasonal_naive_forecast year_month_ensure_month
        dom_cols_ensure_month ensure_month_present)
qed

theorem engine_frame_effect_witness:
  "''month'' \<in> dom (cols frame_q1_month) \<and>
   list_all (\<lambda>c. cols (ensure_month frame_q1_month) c = cols frame_q1_month c)
     [''net_cash_flow'', ''month''] \<and>
   data (snd (trend_analysis (\<lambda>n y. Inr (Num 400, Num 1, Num 0)) (\<lambda>xs. Inr 0.5)
          (analyzer_of frame_q1_month :: (nat, nat) analyzer) ''net_cash_flow'')) = frame_q1_month \<and>
   data (snd (decompose_time_series (\<lambda>vs p. Inr p)
          (analyzer_of frame_q1_month :: (nat, nat) analyzer) ''net_cash_flow'' 12)) = frame_q1_month \<and>
   data (snd (analyze_seasonality (\<lambda>ms vs. Inr (length vs))
          (analyzer_of frame_q1_month :: (nat, nat) analyzer) ''net_cash_flow'')) = frame_q1_month \<and>
   data (snd (moving_average_forecast (forecaster_of frame_q1_month) ''net_cash_flow'' 3 2)) =
     frame_q1_month \<and>
   data (snd (seasonal_naive_forecast (forecaster_of frame_q1_month) ''net_cash_flow'' 2)) =
     frame_q1_month \<and>
   data (snd (exponential_smoothing_forecast hw_failing (forecaster_of frame_q1_month)
          ''net_cash_flow'' 2)) = frame_q1_month \<and>
   data (snd (ensemble_forecast hw_failing (forecaster_of frame_q1_month) ''net_cash_flow'' 2)) =
     frame_q1_month"
proof -
  have m: "''month'' \<in> dom (cols frame_q1_month)"
    by (simp add: frame_q1_month_def)
  have a: "data (analyzer_of frame_q1_month :: (nat, nat) analyzer) = frame_q1_month"
    by (simp add: analyzer_of_def)
  have f: "data (forecaster_of frame_q1_month) = frame_q1_month"
    by (simp add: forecaster_of_def)
  note t = engine_frame_effect [where an = "analyzer_of frame_q1_month :: (nat, nat) analyzer"
        and self = "forecaster_of frame_q1_month" and df = frame_q1_month
        and column = "''net_cash_flow''" and hw = hw_failing and h = 2 and window = 3
        and p = 12 and linregress = "\<lambda>n y. Inr (Num 400, Num 1, Num 0)"
        and adfuller = "\<lambda>xs. Inr 0.5" and seasonal_decompose = "\<lambda>vs p. Inr p"
        and summarise = "\<lambda>ms vs. Inr (length vs)"]
  from t m have e: "ensure_month frame_q1_month = frame_q1_month"
    by blast
  from t show ?thesis
    unfolding a f e using m by simp
qed

text \<open>
  C9 as stated fails: a frame handed over without a \<open>month\<close> column has one after
  \<open>seasonal_naive_forecast\<close>, after \<open>analyze_seasonality\<close>, after
  \<open>exponential_smoothing_forecast\<close> when the fit raises, and after \<open>ensemble_forecast\<close>.
\<close>

theorem engine_frame_effect_counterexample:
  "cols (data (forecaster_of frame_q1)) ''month'' = None \<and>
   cols (data (snd (seasonal_naive_forecast (forecaster_of frame_q1) ''net_cash_flow'' 1)))
     ''month'' = Some [Num 1, Num 2, Num 3] \<and>
   cols (data (snd (analyze_seasonality (\<lambda>ms vs. Inr (length vs))
     (analyzer_of frame_q1 :: (nat, nat) analyzer) ''net_cash_flow''))) ''month'' =
     Some [Num 1, Num 2, Num 3] \<and>
   cols (data (snd (exponential_smoothing_forecast hw_failing (forecaster_of frame_q1)
     ''net_cash_flow'' 1))) ''month'' = Some [Num 1, Num 2, Num 3] \<and>
   cols (data (snd (ensemble_forecast hw_unconverged (forecaster_of frame_q1)
     ''net_cash_flow'' 1))) ''month'' = Some [Num 1, Num 2, Num 3]"
proof -
  have ma: "\<not> isl (fst (moving_average_forecast (forecaster_of frame_q1) ''net_cash_flow'' 3 1))"
    by (simp add: moving_average_forecast_def forecaster_of_def frame_q1_def get_col_def
        iloc_last_def rolling_mean_def)
  have e: "cols (ensure_month frame_q1) ''month'' = Some [Num 1, Num 2, Num 3]"
    by (simp add: frame_q1_def ensure_month_def month_num_def month_of_def)
  have q: "data (forecaster_of frame_q1) = frame_q1"
    by (simp add: forecaster_of_def)
  have es: "data (snd (exponential_smoothing_forecast hw_failing (forecaster_of frame_q1)
     ''net_cash_flow'' 1)) = ensure_month frame_q1"
    by (simp add: data_exponential_smoothing_exact q) (simp add: frame_q1_def hw_failing_def)
  show ?thesis
    using ma e es
    by (simp add: snd_seasonal_naive_forecast data_analyze_seasonality data_ensemble_exact q)
       (simp add: analyzer_of_def frame_q1_def)
qed

end
